theory Spec2Isabelle
  imports Main
begin

section \<open>Tables of the mini CRM (src/main.py, lines 18-62)\<close>

text \<open>
  Every SQLAlchemy model is a record; a table is the list of its rows in insertion order.
  Python integers are \<open>int\<close>. A column that can hold NULL is an \<open>option\<close>:
  \<open>is_active\<close> and \<open>max_load\<close> (update_operator can store an explicit null),
  \<open>operator_id\<close> and \<open>message\<close> of an appeal. The column \<open>id\<close> of each table
  carries a prefix, since \<open>id\<close> is the identity function of HOL.
\<close>

record operator =
  op_id :: int
  op_name :: string
  is_active :: "bool option"
  max_load :: "int option"

record source =
  src_id :: int
  src_name :: string

record operator_source =
  os_id :: int
  os_operator_id :: int
  os_source_id :: int
  weight :: int

record lead =
  ld_id :: int
  external_id :: string

record appeal =
  ap_id :: int
  lead_id :: int
  source_id :: int
  operator_id :: "int option"
  timestamp :: string
  message :: "string option"

record db =
  operators :: "operator list"
  sources :: "source list"
  operator_sources :: "operator_source list"
  leads :: "lead list"
  appeals :: "appeal list"

definition empty_db :: db where
  "empty_db = \<lparr>operators = [], sources = [], operator_sources = [], leads = [], appeals = []\<rparr>"

section \<open>Request bodies (lines 69-121)\<close>

record operator_create =
  oc_name :: string
  oc_is_active :: bool
  oc_max_load :: int

text \<open>
  OperatorUpdate is dumped with \<open>exclude_unset\<close>: a field that the request leaves out is
  \<open>None\<close>, a field that it sets is \<open>Some v\<close>, where \<open>v\<close> may be the explicit null.
\<close>

record operator_update =
  ou_is_active :: "bool option option"
  ou_max_load :: "int option option"

record source_create =
  sc_name :: string

record operator_source_create =
  osc_operator_id :: int
  osc_source_id :: int
  osc_weight :: int

record appeal_create =
  ac_external_id :: string
  ac_source_id :: int
  ac_message :: "string option"

datatype error = ValueError | IndexError | OverflowError | HTTPException int

text \<open>
  SQLite stores an INTEGER in 64 signed bits. A Python integer outside that range cannot
  be bound to a statement: the query or the flush that carries it raises OverflowError.
\<close>

definition in_int64 :: "int \<Rightarrow> bool" where
  "in_int64 n = (- 9223372036854775808 \<le> n \<and> n \<le> 9223372036854775807)"

section \<open>Inserting and listing rows (lines 158-215)\<close>

text \<open>
  The integer primary key that SQLite gives a new row: one more than the largest key of
  the table, 1 in an empty table.
\<close>

definition next_id :: "int list \<Rightarrow> int" where
  "next_id ids = (if ids = [] then 1 else Max (set ids) + 1)"

definition create_operator :: "operator_create \<Rightarrow> db \<Rightarrow> (error + operator) \<times> db" where
  "create_operator operator d =
     (if \<not> in_int64 (oc_max_load operator) then (Inl OverflowError, d)
      else
        (let db_operator = \<lparr>op_id = next_id (map op_id (operators d)),
               op_name = oc_name operator, is_active = Some (oc_is_active operator),
               max_load = Some (oc_max_load operator)\<rparr>
         in (Inr db_operator, d\<lparr>operators := operators d @ [db_operator]\<rparr>)))"

definition list_operators :: "db \<Rightarrow> operator list" where
  "list_operators d = operators d"

definition apply_update :: "operator_update \<Rightarrow> operator \<Rightarrow> operator" where
  "apply_update upd db_operator =
     (let o1 = (case ou_is_active upd of None \<Rightarrow> db_operator
                | Some v \<Rightarrow> db_operator\<lparr>is_active := v\<rparr>)
      in (case ou_max_load upd of None \<Rightarrow> o1 | Some v \<Rightarrow> o1\<lparr>max_load := v\<rparr>))"

text \<open>The integer that an update binds: the max_load, when the request sets one.\<close>

definition update_in_range :: "operator_update \<Rightarrow> bool" where
  "update_in_range upd = (case ou_max_load upd of Some (Some v) \<Rightarrow> in_int64 v | _ \<Rightarrow> True)"

definition update_operator :: "int \<Rightarrow> operator_update \<Rightarrow> db \<Rightarrow> (error + operator) \<times> db" where
  "update_operator operator_id' upd d =
     (if \<not> in_int64 operator_id' then (Inl OverflowError, d)
      else
        (case filter (\<lambda>x. op_id x = operator_id') (operators d) of
           [] \<Rightarrow> (Inl (HTTPException 404), d)
         | db_operator # _ \<Rightarrow>
             (if \<not> update_in_range upd then (Inl OverflowError, d)
              else
                (Inr (apply_update upd db_operator),
                 d\<lparr>operators :=
                      map (\<lambda>x. if op_id x = operator_id' then apply_update upd x else x)
                          (operators d)\<rparr>))))"

definition create_source :: "source_create \<Rightarrow> db \<Rightarrow> source \<times> db" where
  "create_source source' d =
     (let db_source = \<lparr>src_id = next_id (map src_id (sources d)), src_name = sc_name source'\<rparr>
      in (db_source, d\<lparr>sources := sources d @ [db_source]\<rparr>))"

definition list_sources :: "db \<Rightarrow> source list" where
  "list_sources d = sources d"

text \<open>
  create_operator_source stores the ids it is given: the source looks neither operator nor
  source up, and the engine is created without SQLite's foreign-key enforcement. The
  three integers must fit SQLite's range, or the flush raises and nothing is stored.
\<close>

definition create_operator_source ::
  "operator_source_create \<Rightarrow> db \<Rightarrow> (error + operator_source) \<times> db" where
  "create_operator_source os d =
     (if \<not> (in_int64 (osc_operator_id os) \<and> in_int64 (osc_source_id os) \<and>
             in_int64 (osc_weight os))
      then (Inl OverflowError, d)
      else
        (let db_os = \<lparr>os_id = next_id (map os_id (operator_sources d)),
               os_operator_id = osc_operator_id os, os_source_id = osc_source_id os,
               weight = osc_weight os\<rparr>
         in (Inr db_os, d\<lparr>operator_sources := operator_sources d @ [db_os]\<rparr>)))"

text \<open>Python's truth value of an \<open>Optional[int]\<close>: \<open>None\<close> and \<open>0\<close> are false.\<close>

definition truthy :: "int option \<Rightarrow> bool" where
  "truthy v = (case v of None \<Rightarrow> False | Some n \<Rightarrow> n \<noteq> 0)"

text \<open>
  The filter binds the source_id when \<open>query.all()\<close> runs: a non-zero source_id outside
  SQLite's range raises OverflowError there.
\<close>

definition list_operator_sources :: "int option \<Rightarrow> db \<Rightarrow> error + operator_source list" where
  "list_operator_sources source_id' d =
     (let query = operator_sources d
      in if truthy source_id'
         then (case source_id' of
                 Some s \<Rightarrow>
                   (if in_int64 s then Inr (filter (\<lambda>os. os_source_id os = s) query)
                    else Inl OverflowError)
               | None \<Rightarrow> Inr query)
         else Inr query)"

definition list_leads :: "db \<Rightarrow> lead list" where
  "list_leads d = leads d"

definition list_appeals :: "db \<Rightarrow> appeal list" where
  "list_appeals d = appeals d"

section \<open>The candidate query of create_appeal (lines 230-237)\<close>

text \<open>SQL's three-valued logic: \<open>None\<close> is NULL, and WHERE keeps a row only on TRUE.\<close>

definition sql_lt :: "int option \<Rightarrow> int option \<Rightarrow> bool option" where
  "sql_lt a b = (case a of None \<Rightarrow> None
                 | Some x \<Rightarrow> (case b of None \<Rightarrow> None | Some y \<Rightarrow> Some (x < y)))"

definition sql_eq :: "'a option \<Rightarrow> 'a option \<Rightarrow> bool option" where
  "sql_eq a b = (case a of None \<Rightarrow> None
                 | Some x \<Rightarrow> (case b of None \<Rightarrow> None | Some y \<Rightarrow> Some (x = y)))"

definition sql_is_null :: "'a option \<Rightarrow> bool option" where
  "sql_is_null a = Some (a = None)"

definition sql_or :: "bool option \<Rightarrow> bool option \<Rightarrow> bool option" where
  "sql_or a b = (if a = Some True \<or> b = Some True then Some True
                 else if a = Some False \<and> b = Some False then Some False else None)"

definition sql_and :: "bool option \<Rightarrow> bool option \<Rightarrow> bool option" where
  "sql_and a b = (if a = Some False \<or> b = Some False then Some False
                  else if a = Some True \<and> b = Some True then Some True else None)"

definition sql_true :: "bool option \<Rightarrow> bool" where
  "sql_true a = (a = Some True)"

text \<open>
  The subquery: \<open>SELECT operator_id, count(id) AS load FROM tbl_appeals GROUP BY operator_id\<close>.
  One row for each operator_id that occurs in the table (NULL is a group of its own).
\<close>

definition load_subquery :: "appeal list \<Rightarrow> (int option \<times> int) list" where
  "load_subquery aps =
     map (\<lambda>k. (k, int (length (filter (\<lambda>a. operator_id a = k) aps))))
         (remdups (map operator_id aps))"

text \<open>
  The LEFT OUTER JOIN of one operator with the subquery on
  \<open>subquery.operator_id = Operator.id\<close>: the loads of the matching rows, or one NULL load
  when no row matches (the NULL group never matches: NULL = id is not TRUE).
\<close>

definition outerjoin_load :: "(int option \<times> int) list \<Rightarrow> int \<Rightarrow> int option list" where
  "outerjoin_load subquery oid =
     (case filter (\<lambda>row. sql_true (sql_eq (fst row) (Some oid))) subquery of
        [] \<Rightarrow> [None]
      | row # rows \<Rightarrow> map (\<lambda>x. Some (snd x)) (row # rows))"

definition where_clause :: "int \<Rightarrow> operator \<Rightarrow> operator_source \<Rightarrow> int option \<Rightarrow> bool" where
  "where_clause sid opr os load =
     sql_true (sql_and (sql_eq (Some (os_source_id os)) (Some sid))
              (sql_and (sql_eq (is_active opr) (Some True))
                       (sql_or (sql_lt load (max_load opr)) (sql_is_null load))))"

text \<open>
  The rows of the query, each an operator with the weight of one affinity row. SQL leaves
  the order of the rows open. SQLite scans the affinity rows and looks the operator of each
  up by its primary key, so the rows come in the order of the affinity rows: that is the
  order of the model.
\<close>

definition candidates :: "db \<Rightarrow> int \<Rightarrow> (operator \<times> int) list" where
  "candidates d sid =
     (let subquery = load_subquery (appeals d)
      in [(opr, weight os).
            os \<leftarrow> operator_sources d,
            opr \<leftarrow> operators d,
            op_id opr = os_operator_id os,
            load \<leftarrow> outerjoin_load subquery (op_id opr),
            where_clause sid opr os load])"

section \<open>The selection step of create_appeal (lines 239-246)\<close>

text \<open>\<open>itertools.accumulate\<close>: the running sums of a list.\<close>

fun accumulate_from :: "int \<Rightarrow> int list \<Rightarrow> int list" where
  "accumulate_from s [] = []"
| "accumulate_from s (w # ws) = (s + w) # accumulate_from (s + w) ws"

definition accumulate :: "int list \<Rightarrow> int list" where
  "accumulate ws = accumulate_from 0 ws"

text \<open>
  \<open>bisect_right(a, x, 0, hi)\<close> on an ascending list: the number of entries among the
  first \<open>hi\<close> that are at most \<open>x\<close>.
\<close>

definition bisect :: "int list \<Rightarrow> int \<Rightarrow> nat \<Rightarrow> nat" where
  "bisect a x hi = length (takeWhile (\<lambda>c. c \<le> x) (take hi a))"

text \<open>
  \<open>random.choices(population, weights=weights, k=1)[0]\<close> of the standard library. It draws
  \<open>x = random() * total\<close> and returns \<open>population[bisect(cum_weights, x, 0, n - 1)]\<close>.
  The cumulative weights are integers, so the result depends on the integer part of \<open>x\<close>
  only: the parameter \<open>r\<close> is that integer, the ticket drawn, and \<open>0 \<le> r < total\<close> for
  every draw. Rounding of the floating-point product is not modelled.
\<close>

definition random_choices :: "int list \<Rightarrow> int list \<Rightarrow> int \<Rightarrow> error + int" where
  "random_choices population weights r =
     (let cum_weights = accumulate weights
      in if cum_weights = [] then Inl IndexError
         else if last cum_weights \<le> 0 then Inl ValueError
         else Inr (population ! bisect cum_weights r (length population - 1)))"

text \<open>\<open>tuple.index\<close>: the first position of a value, ValueError when it is absent.\<close>

fun index_of :: "int list \<Rightarrow> int \<Rightarrow> error + nat" where
  "index_of [] v = Inl ValueError"
| "index_of (x # xs) v =
     (if x = v then Inr 0
      else (case index_of xs v of Inl e \<Rightarrow> Inl e | Inr i \<Rightarrow> Inr (Suc i)))"

text \<open>
  Lines 239-246. Unpacking \<open>zip(*[])\<close> into two names raises ValueError: that is the
  branch \<open>pairs = []\<close>.
\<close>

definition select_operator :: "(operator \<times> int) list \<Rightarrow> int \<Rightarrow> error + int option" where
  "select_operator cands r =
     (if cands = [] then Inr None
      else
        (let pairs = [(op_id opr, w). (opr, w) \<leftarrow> cands, w > 0]
         in if pairs = [] then Inl ValueError
            else
              (let ops = map fst pairs;
                   weights = map snd pairs;
                   total_weight = sum_list weights
               in if total_weight > 0
                  then (case random_choices weights weights r of
                          Inl e \<Rightarrow> Inl e
                        | Inr chosen_weight \<Rightarrow>
                            (case index_of weights chosen_weight of
                               Inl e \<Rightarrow> Inl e
                             | Inr index \<Rightarrow> Inr (Some (ops ! index))))
                  else Inr None)))"

section \<open>create_appeal (lines 219-259)\<close>

text \<open>Lines 222-227: the first lead with the external id, or a new committed lead.\<close>

definition find_or_create_lead :: "string \<Rightarrow> db \<Rightarrow> lead \<times> db" where
  "find_or_create_lead ext d =
     (case filter (\<lambda>l. external_id l = ext) (leads d) of
        db_lead # _ \<Rightarrow> (db_lead, d)
      | [] \<Rightarrow>
          (let db_lead = \<lparr>ld_id = next_id (map ld_id (leads d)), external_id = ext\<rparr>
           in (db_lead, d\<lparr>leads := leads d @ [db_lead]\<rparr>)))"

text \<open>
  Lines 222-246: the lead, the candidate query and the selection. \<open>r\<close> is the ticket of
  the random draw. The candidate query binds the source_id, so a source_id outside
  SQLite's range raises OverflowError there. An exception leaves the database as the
  commit of the lead left it.
\<close>

definition create_appeal_select ::
  "appeal_create \<Rightarrow> int \<Rightarrow> db \<Rightarrow> (error + lead \<times> int option) \<times> db" where
  "create_appeal_select appeal' r d =
     (let (db_lead, d1) = find_or_create_lead (ac_external_id appeal') d
      in if \<not> in_int64 (ac_source_id appeal') then (Inl OverflowError, d1)
         else
           (let cands = candidates d1 (ac_source_id appeal')
            in (case select_operator cands r of
                  Inl e \<Rightarrow> (Inl e, d1)
                | Inr operator_id' \<Rightarrow> (Inr (db_lead, operator_id'), d1))))"

text \<open>
  Lines 249-259: the appeal is built, added and committed. \<open>now\<close> is the text of
  \<open>datetime.now().isoformat()\<close>.
\<close>

definition create_appeal_insert ::
  "appeal_create \<Rightarrow> lead \<Rightarrow> int option \<Rightarrow> string \<Rightarrow> db \<Rightarrow> appeal \<times> db" where
  "create_appeal_insert appeal' db_lead operator_id' now d =
     (let db_appeal = \<lparr>ap_id = next_id (map ap_id (appeals d)),
            lead_id = ld_id db_lead, source_id = ac_source_id appeal',
            operator_id = operator_id', timestamp = now,
            message = ac_message appeal'\<rparr>
      in (db_appeal, d\<lparr>appeals := appeals d @ [db_appeal]\<rparr>))"

text \<open>The whole request: the two parts, one after the other. No appeal is written
  when the first part raises.\<close>

definition create_appeal :: "appeal_create \<Rightarrow> int \<Rightarrow> string \<Rightarrow> db \<Rightarrow> (error + appeal) \<times> db" where
  "create_appeal appeal' r now d =
     (case create_appeal_select appeal' r d of
        (Inl e, d1) \<Rightarrow> (Inl e, d1)
      | (Inr (db_lead, operator_id'), d1) \<Rightarrow>
          (let (db_appeal, d2) = create_appeal_insert appeal' db_lead operator_id' now d1
           in (Inr db_appeal, d2)))"



section \<open>Notions used to state the properties\<close>

text \<open>
  The load of an operator, in the words of the specification: the count of Appeal records
  attributed to it.
\<close>

definition current_load :: "db \<Rightarrow> int \<Rightarrow> int" where
  "current_load d oid = int (length (filter (\<lambda>a. operator_id a = Some oid) (appeals d)))"

text \<open>
  The selection predicate as the specification words it: the operator is active, an
  affinity row links it to the source, and its current load is below its max_load.
\<close>

definition spec_eligible :: "db \<Rightarrow> int \<Rightarrow> operator \<Rightarrow> bool" where
  "spec_eligible d sid opr =
     (is_active opr = Some True \<and>
      (\<exists>os\<in>set (operator_sources d). os_operator_id os = op_id opr \<and> os_source_id os = sid) \<and>
      (case max_load opr of None \<Rightarrow> False | Some m \<Rightarrow> current_load d (op_id opr) < m))"

text \<open>
  The capacity condition that the query computes: no appeal row at all (the NULL load of the
  outer join), or a load below max_load.
\<close>

definition has_capacity :: "db \<Rightarrow> operator \<Rightarrow> bool" where
  "has_capacity d opr =
     (current_load d (op_id opr) = 0 \<or>
      (case max_load opr of None \<Rightarrow> False | Some m \<Rightarrow> current_load d (op_id opr) < m))"



text \<open>
  The tickets of one draw are \<open>0, \<dots>, W - 1\<close>, where \<open>W\<close> is the total positive weight,
  each as likely as the other. The probability that an operator is selected is the number
  of tickets that select it, divided by \<open>W\<close>.
\<close>

definition total_positive_weight :: "(operator \<times> int) list \<Rightarrow> int" where
  "total_positive_weight cands = sum_list [w. (opr, w) \<leftarrow> cands, w > 0]"

definition tickets :: "(operator \<times> int) list \<Rightarrow> int list" where
  "tickets cands = [0 .. total_positive_weight cands - 1]"

definition tickets_for :: "(operator \<times> int) list \<Rightarrow> int \<Rightarrow> nat" where
  "tickets_for cands oid =
     length (filter (\<lambda>r. select_operator cands r = Inr (Some oid)) (tickets cands))"

section \<open>Database states built by the endpoints\<close>

text \<open>Scenario B: one operator, linked to the only source with weight 0.\<close>

definition scenario_B :: db where
  "scenario_B =
     snd (create_operator_source \<lparr>osc_operator_id = 1, osc_source_id = 1, osc_weight = 0\<rparr>
       (snd (create_source \<lparr>sc_name = ''S''\<rparr>
         (snd (create_operator \<lparr>oc_name = ''O3'', oc_is_active = True, oc_max_load = 5\<rparr>
            empty_db)))))"

text \<open>Two operators linked to one source with the same weight 5.\<close>

definition scenario_tie :: db where
  "scenario_tie =
     snd (create_operator_source \<lparr>osc_operator_id = 2, osc_source_id = 1, osc_weight = 5\<rparr>
       (snd (create_operator_source \<lparr>osc_operator_id = 1, osc_source_id = 1, osc_weight = 5\<rparr>
         (snd (create_source \<lparr>sc_name = ''S''\<rparr>
           (snd (create_operator \<lparr>oc_name = ''B'', oc_is_active = True, oc_max_load = 100\<rparr>
             (snd (create_operator \<lparr>oc_name = ''A'', oc_is_active = True, oc_max_load = 100\<rparr>
                empty_db)))))))))"

text \<open>Scenario A: weights 1 and 3 on one source, max_load 2 each, no appeal yet.\<close>

definition scenario_A :: db where
  "scenario_A =
     snd (create_operator_source \<lparr>osc_operator_id = 2, osc_source_id = 1, osc_weight = 3\<rparr>
       (snd (create_operator_source \<lparr>osc_operator_id = 1, osc_source_id = 1, osc_weight = 1\<rparr>
         (snd (create_source \<lparr>sc_name = ''S''\<rparr>
           (snd (create_operator \<lparr>oc_name = ''O2'', oc_is_active = True, oc_max_load = 2\<rparr>
             (snd (create_operator \<lparr>oc_name = ''O1'', oc_is_active = True, oc_max_load = 2\<rparr>
                empty_db)))))))))"

text \<open>An active operator with max_load 0, linked with weight 1, and no appeal.\<close>

definition scenario_zero_capacity :: db where
  "scenario_zero_capacity =
     snd (create_operator_source \<lparr>osc_operator_id = 1, osc_source_id = 1, osc_weight = 1\<rparr>
       (snd (create_source \<lparr>sc_name = ''S''\<rparr>
         (snd (create_operator \<lparr>oc_name = ''O5'', oc_is_active = True, oc_max_load = 0\<rparr>
            empty_db)))))"

text \<open>An affinity row for source 99 in a database that has no source at all.\<close>

definition scenario_unknown_source :: db where
  "scenario_unknown_source =
     snd (create_operator_source \<lparr>osc_operator_id = 1, osc_source_id = 99, osc_weight = 1\<rparr>
       (snd (create_operator \<lparr>oc_name = ''O1'', oc_is_active = True, oc_max_load = 10\<rparr>
          empty_db)))"

text \<open>Scenario D: an operator with max_load 1 after its first appeal, so load = max_load.\<close>

definition scenario_D :: db where
  "scenario_D =
     snd (create_appeal \<lparr>ac_external_id = ''lead-1'', ac_source_id = 1, ac_message = None\<rparr>
            0 ''2024-01-01T00:00:00''
       (snd (create_operator_source \<lparr>osc_operator_id = 1, osc_source_id = 1, osc_weight = 1\<rparr>
         (snd (create_source \<lparr>sc_name = ''S''\<rparr>
           (snd (create_operator \<lparr>oc_name = ''O5'', oc_is_active = True, oc_max_load = 1\<rparr>
              empty_db)))))))"


section \<open>The candidate query, characterised\<close>

lemma sql_true_eq_Some: "sql_true (sql_eq k (Some v)) = (k = Some v)"
  by (cases k) (auto simp: sql_true_def sql_eq_def)

lemma filter_eq_distinct:
  "distinct xs \<Longrightarrow> filter (\<lambda>k. k = x) xs = (if x \<in> set xs then [x] else [])"
  by (induction xs) auto

lemma load_subquery_row:
  "filter (\<lambda>row. sql_true (sql_eq (fst row) (Some oid))) (load_subquery aps) =
     (if Some oid \<in> set (map operator_id aps)
      then [(Some oid, int (length (filter (\<lambda>a. operator_id a = Some oid) aps)))]
      else [])"
proof -
  have "filter (\<lambda>row. sql_true (sql_eq (fst row) (Some oid))) (load_subquery aps) =
        map (\<lambda>k. (k, int (length (filter (\<lambda>a. operator_id a = k) aps))))
            (filter (\<lambda>k. k = Some oid) (remdups (map operator_id aps)))"
    by (simp add: load_subquery_def filter_map comp_def sql_true_eq_Some)
  also have "filter (\<lambda>k. k = Some oid) (remdups (map operator_id aps)) =
        (if Some oid \<in> set (map operator_id aps) then [Some oid] else [])"
    using filter_eq_distinct [of "remdups (map operator_id aps)" "Some oid"] by simp
  finally show ?thesis by simp
qed

lemma current_load_zero_iff:
  "current_load d oid = 0 \<longleftrightarrow> Some oid \<notin> set (map operator_id (appeals d))"
proof -
  have "current_load d oid = 0 \<longleftrightarrow> filter (\<lambda>a. operator_id a = Some oid) (appeals d) = []"
    by (simp add: current_load_def)
  also have "\<dots> \<longleftrightarrow> (\<forall>a\<in>set (appeals d). operator_id a \<noteq> Some oid)"
    by (simp add: filter_empty_conv)
  also have "\<dots> \<longleftrightarrow> Some oid \<notin> set (map operator_id (appeals d))"
    by (simp add: image_iff) metis
  finally show ?thesis .
qed

lemma outerjoin_load_eq:
  "outerjoin_load (load_subquery (appeals d)) oid =
     (if current_load d oid = 0 then [None] else [Some (current_load d oid)])"
proof (cases "current_load d oid = 0")
  case True
  then have "Some oid \<notin> set (map operator_id (appeals d))"
    by (simp add: current_load_zero_iff)
  with True show ?thesis
    by (simp add: outerjoin_load_def load_subquery_row)
next
  case False
  then have "Some oid \<in> set (map operator_id (appeals d))"
    by (simp add: current_load_zero_iff)
  with False show ?thesis
    by (simp add: outerjoin_load_def load_subquery_row current_load_def)
qed

lemma where_clause_None:
  "where_clause sid opr os None = (os_source_id os = sid \<and> is_active opr = Some True)"
  by (cases "is_active opr")
     (auto simp: where_clause_def sql_true_def sql_and_def sql_eq_def sql_or_def sql_lt_def
        sql_is_null_def)

lemma where_clause_Some:
  "where_clause sid opr os (Some n) =
     (os_source_id os = sid \<and> is_active opr = Some True \<and>
      (case max_load opr of None \<Rightarrow> False | Some m \<Rightarrow> n < m))"
  by (cases "is_active opr"; cases "max_load opr")
     (auto simp: where_clause_def sql_true_def sql_and_def sql_eq_def sql_or_def sql_lt_def
        sql_is_null_def)

lemma candidate_row_iff:
  "x \<in> set (concat (map (\<lambda>load. if where_clause sid opr os load then [(opr, weight os)] else [])
                        (outerjoin_load (load_subquery (appeals d)) (op_id opr)))) \<longleftrightarrow>
     x = (opr, weight os) \<and> os_source_id os = sid \<and> is_active opr = Some True \<and>
     has_capacity d opr"
  by (auto simp: outerjoin_load_eq where_clause_None where_clause_Some has_capacity_def
        split: option.splits)

lemma candidates_iff:
  "(opr, w) \<in> set (candidates d sid) \<longleftrightarrow>
     opr \<in> set (operators d) \<and>
     (\<exists>os\<in>set (operator_sources d).
         os_operator_id os = op_id opr \<and> os_source_id os = sid \<and> weight os = w) \<and>
     is_active opr = Some True \<and> has_capacity d opr"
proof -
  have "(opr, w) \<in> set (candidates d sid) \<longleftrightarrow>
      (\<exists>os\<in>set (operator_sources d). \<exists>opr'\<in>set (operators d).
          op_id opr' = os_operator_id os \<and>
          (opr, w) \<in> set (concat (map (\<lambda>load. if where_clause sid opr' os load
                                              then [(opr', weight os)] else [])
                        (outerjoin_load (load_subquery (appeals d)) (op_id opr')))))"
    unfolding candidates_def Let_def
    by (simp only: set_concat set_map UN_iff bex_simps image_iff split: if_splits) fastforce
  also have "\<dots> \<longleftrightarrow>
      (\<exists>os\<in>set (operator_sources d). \<exists>opr'\<in>set (operators d).
          op_id opr' = os_operator_id os \<and>
          (opr, w) = (opr', weight os) \<and> os_source_id os = sid \<and>
          is_active opr' = Some True \<and> has_capacity d opr')"
    by (simp only: candidate_row_iff)
  also have "\<dots> \<longleftrightarrow>
      opr \<in> set (operators d) \<and>
      (\<exists>os\<in>set (operator_sources d).
         os_operator_id os = op_id opr \<and> os_source_id os = sid \<and> weight os = w) \<and>
      is_active opr = Some True \<and> has_capacity d opr"
  proof
    assume "\<exists>os\<in>set (operator_sources d). \<exists>opr'\<in>set (operators d).
          op_id opr' = os_operator_id os \<and>
          (opr, w) = (opr', weight os) \<and> os_source_id os = sid \<and>
          is_active opr' = Some True \<and> has_capacity d opr'"
    then obtain os opr' where "os \<in> set (operator_sources d)" "opr' \<in> set (operators d)"
      "op_id opr' = os_operator_id os" "opr = opr'" "w = weight os" "os_source_id os = sid"
      "is_active opr' = Some True" "has_capacity d opr'"
      by blast
    then show "opr \<in> set (operators d) \<and>
      (\<exists>os\<in>set (operator_sources d).
         os_operator_id os = op_id opr \<and> os_source_id os = sid \<and> weight os = w) \<and>
      is_active opr = Some True \<and> has_capacity d opr"
      by (intro conjI bexI [of _ os]) simp_all
  next
    assume "opr \<in> set (operators d) \<and>
      (\<exists>os\<in>set (operator_sources d).
         os_operator_id os = op_id opr \<and> os_source_id os = sid \<and> weight os = w) \<and>
      is_active opr = Some True \<and> has_capacity d opr"
    then obtain os where "opr \<in> set (operators d)" "os \<in> set (operator_sources d)"
      "os_operator_id os = op_id opr" "os_source_id os = sid" "weight os = w"
      "is_active opr = Some True" "has_capacity d opr"
      by blast
    then show "\<exists>os\<in>set (operator_sources d). \<exists>opr'\<in>set (operators d).
          op_id opr' = os_operator_id os \<and>
          (opr, w) = (opr', weight os) \<and> os_source_id os = sid \<and>
          is_active opr' = Some True \<and> has_capacity d opr'"
      by (intro bexI [of _ os] bexI [of _ opr]) simp_all
  qed
  finally show ?thesis .
qed

section \<open>The selection step and the request\<close>


lemma select_operator_no_positive:
  "cands \<noteq> [] \<Longrightarrow> [(op_id opr, w). (opr, w) \<leftarrow> cands, w > 0] = [] \<Longrightarrow>
     select_operator cands r = Inl ValueError"
  by (simp add: select_operator_def)

lemma index_of_Inr: "index_of xs v = Inr i \<Longrightarrow> i < length xs \<and> xs ! i = v"
  by (induction xs arbitrary: i) (auto split: if_splits sum.splits)

lemma select_operator_Some:
  assumes "select_operator cands r = Inr (Some oid)"
  shows "\<exists>opr w. (opr, w) \<in> set cands \<and> 0 < w \<and> op_id opr = oid"
proof -
  let ?pairs = "[(op_id opr, w). (opr, w) \<leftarrow> cands, w > 0]"
  from assms obtain cw j where "index_of (map snd ?pairs) cw = Inr j"
    and oid: "oid = map fst ?pairs ! j"
    by (auto simp: select_operator_def Let_def split: if_splits sum.splits)
  then have j: "j < length ?pairs" using index_of_Inr by fastforce
  then have "?pairs ! j \<in> set ?pairs" by (rule nth_mem)
  moreover have "fst (?pairs ! j) = oid" using oid j by simp
  ultimately have "\<exists>p\<in>set ?pairs. fst p = oid" by blast
  then show ?thesis by auto
qed

lemma candidates_cong:
  "operators d' = operators d \<Longrightarrow> operator_sources d' = operator_sources d \<Longrightarrow>
     appeals d' = appeals d \<Longrightarrow> candidates d' sid = candidates d sid"
  by (simp add: candidates_def)

lemma find_or_create_lead_frame:
  "operators (snd (find_or_create_lead ext d)) = operators d \<and>
   sources (snd (find_or_create_lead ext d)) = sources d \<and>
   operator_sources (snd (find_or_create_lead ext d)) = operator_sources d \<and>
   appeals (snd (find_or_create_lead ext d)) = appeals d"
  by (simp add: find_or_create_lead_def Let_def split: list.splits)

lemma candidates_find_or_create_lead:
  "candidates (snd (find_or_create_lead ext d)) sid = candidates d sid"
  by (rule candidates_cong) (simp_all add: find_or_create_lead_frame)

lemma in_int64_small [simp]: "in_int64 1" "in_int64 7" "in_int64 99"
  by (simp_all add: in_int64_def)

lemma create_appeal_select_eq:
  "create_appeal_select ac r d =
     (if \<not> in_int64 (ac_source_id ac)
      then (Inl OverflowError, snd (find_or_create_lead (ac_external_id ac) d))
      else (case select_operator (candidates d (ac_source_id ac)) r of
              Inl e \<Rightarrow> (Inl e, snd (find_or_create_lead (ac_external_id ac) d))
            | Inr oid \<Rightarrow>
                (Inr (fst (find_or_create_lead (ac_external_id ac) d), oid),
                 snd (find_or_create_lead (ac_external_id ac) d))))"
proof (cases "find_or_create_lead (ac_external_id ac) d")
  case (Pair db_lead d1)
  then have "candidates d1 (ac_source_id ac) = candidates d (ac_source_id ac)"
    using candidates_find_or_create_lead [of "ac_external_id ac" d "ac_source_id ac"] by simp
  with Pair show ?thesis
    by (simp add: create_appeal_select_def Let_def split: sum.splits)
qed

lemma create_appeal_overflow:
  assumes "\<not> in_int64 (ac_source_id ac)"
  shows "create_appeal ac r now d =
           (Inl OverflowError, snd (find_or_create_lead (ac_external_id ac) d))"
  using assms by (simp add: create_appeal_def create_appeal_select_eq)

lemma create_appeal_raises:
  assumes "in_int64 (ac_source_id ac)"
    and "select_operator (candidates d (ac_source_id ac)) r = Inl e"
  shows "create_appeal ac r now d = (Inl e, snd (find_or_create_lead (ac_external_id ac) d))"
  using assms by (simp add: create_appeal_def create_appeal_select_eq)

lemma create_appeal_returns:
  assumes "in_int64 (ac_source_id ac)"
    and "select_operator (candidates d (ac_source_id ac)) r = Inr oid"
  shows "create_appeal ac r now d =
       (Inr \<lparr>ap_id = next_id (map ap_id (appeals d)),
             lead_id = ld_id (fst (find_or_create_lead (ac_external_id ac) d)),
             source_id = ac_source_id ac, operator_id = oid, timestamp = now,
             message = ac_message ac\<rparr>,
        (snd (find_or_create_lead (ac_external_id ac) d))
          \<lparr>appeals := appeals d @
             [\<lparr>ap_id = next_id (map ap_id (appeals d)),
               lead_id = ld_id (fst (find_or_create_lead (ac_external_id ac) d)),
               source_id = ac_source_id ac, operator_id = oid, timestamp = now,
               message = ac_message ac\<rparr>]\<rparr>)"
  using assms find_or_create_lead_frame [of "ac_external_id ac" d]
  by (simp add: create_appeal_def create_appeal_select_eq create_appeal_insert_def Let_def)

text \<open>The three ways a request ends: the bind fails, the selection raises, or it returns.\<close>

lemma create_appeal_cases [case_names overflow raises returns]:
  obtains
    "\<not> in_int64 (ac_source_id ac)"
    "create_appeal ac r now d =
       (Inl OverflowError, snd (find_or_create_lead (ac_external_id ac) d))"
  | e where "in_int64 (ac_source_id ac)"
    "select_operator (candidates d (ac_source_id ac)) r = Inl e"
    "create_appeal ac r now d = (Inl e, snd (find_or_create_lead (ac_external_id ac) d))"
  | oid where "in_int64 (ac_source_id ac)"
    "select_operator (candidates d (ac_source_id ac)) r = Inr oid"
    "create_appeal ac r now d =
       (Inr \<lparr>ap_id = next_id (map ap_id (appeals d)),
             lead_id = ld_id (fst (find_or_create_lead (ac_external_id ac) d)),
             source_id = ac_source_id ac, operator_id = oid, timestamp = now,
             message = ac_message ac\<rparr>,
        (snd (find_or_create_lead (ac_external_id ac) d))
          \<lparr>appeals := appeals d @
             [\<lparr>ap_id = next_id (map ap_id (appeals d)),
               lead_id = ld_id (fst (find_or_create_lead (ac_external_id ac) d)),
               source_id = ac_source_id ac, operator_id = oid, timestamp = now,
               message = ac_message ac\<rparr>]\<rparr>)"
proof (cases "in_int64 (ac_source_id ac)")
  case False
  then show ?thesis using that(1) create_appeal_overflow by blast
next
  case True
  show ?thesis
  proof (cases "select_operator (candidates d (ac_source_id ac)) r")
    case (Inl e)
    with True show ?thesis using that(2) create_appeal_raises by blast
  next
    case (Inr oid)
    with True show ?thesis using that(3) create_appeal_returns by blast
  qed
qed

text \<open>
  Claim C1: for every candidate set in which every candidate has weight 0, the selection
  step returns the unassigned outcome and never raises. The code breaks it in Scenario B:
  the only candidate has weight 0, the list of positive-weight pairs is empty, the unpacking
  of \<open>zip\<close> raises ValueError for every draw, and the request fails with it.
\<close>

theorem zero_weight_candidates_raise:
  "candidates scenario_B 1 =
     [(\<lparr>op_id = 1, op_name = ''O3'', is_active = Some True, max_load = Some 5\<rparr>, 0)] \<and>
   select_operator (candidates scenario_B 1) r = Inl ValueError \<and>
   fst (create_appeal \<lparr>ac_external_id = ''lead-1'', ac_source_id = 1, ac_message = None\<rparr>
          r now scenario_B) = Inl ValueError"
proof -
  have c: "candidates scenario_B 1 =
     [(\<lparr>op_id = 1, op_name = ''O3'', is_active = Some True, max_load = Some 5\<rparr>, 0)]"
    by code_simp
  have s: "select_operator (candidates scenario_B 1) r = Inl ValueError"
    by (simp add: c select_operator_no_positive)
  show ?thesis
    using c s by (simp add: create_appeal_raises)
qed

text \<open>
  Claim C2: a candidate of positive weight is selected with probability weight / W, and
  candidates of equal weight get the same probability. The code breaks it for two
  candidates of weight 5 each: the draw returns a weight, \<open>index\<close> finds its first
  position, and so all 10 tickets select operator 1 and none selects operator 2, where the
  claim gives 5 tickets to each. Whatever the draw returns, operator 1 is selected.
\<close>

theorem equal_weights_first_candidate_takes_all:
  "map (\<lambda>(opr, w). (op_id opr, w)) (candidates scenario_tie 1) = [(1, 5), (2, 5)] \<and>
   tickets (candidates scenario_tie 1) = [0, 1, 2, 3, 4, 5, 6, 7, 8, 9] \<and>
   tickets_for (candidates scenario_tie 1) 1 = 10 \<and>
   tickets_for (candidates scenario_tie 1) 2 = 0 \<and>
   select_operator (candidates scenario_tie 1) r = Inr (Some 1)"
proof -
  have c: "candidates scenario_tie 1 =
      [(\<lparr>op_id = 1, op_name = ''A'', is_active = Some True, max_load = Some 100\<rparr>, 5),
       (\<lparr>op_id = 2, op_name = ''B'', is_active = Some True, max_load = Some 100\<rparr>, 5)]"
    by code_simp
  have t: "map (\<lambda>(opr, w). (op_id opr, w)) (candidates scenario_tie 1) = [(1, 5), (2, 5)] \<and>
   tickets (candidates scenario_tie 1) = [0, 1, 2, 3, 4, 5, 6, 7, 8, 9] \<and>
   tickets_for (candidates scenario_tie 1) 1 = 10 \<and>
   tickets_for (candidates scenario_tie 1) 2 = 0"
    by code_simp
  have s: "select_operator (candidates scenario_tie 1) r = Inr (Some 1)"
    by (simp add: c select_operator_def random_choices_def accumulate_def bisect_def)
  show ?thesis using t s by simp
qed

text \<open>
  Claim C8: every invocation of create_appeal, whether it returns or raises, leaves the
  Operator, Source and OperatorSource rows unchanged; it only adds rows to the leads and
  the appeals, whose existing rows stay as they are.
\<close>

theorem create_appeal_frame:
  "operators (snd (create_appeal ac r now d)) = operators d \<and>
   sources (snd (create_appeal ac r now d)) = sources d \<and>
   operator_sources (snd (create_appeal ac r now d)) = operator_sources d \<and>
   take (length (leads d)) (leads (snd (create_appeal ac r now d))) = leads d \<and>
   take (length (appeals d)) (appeals (snd (create_appeal ac r now d))) = appeals d"
proof -
  have l: "take (length (leads d)) (leads (snd (find_or_create_lead (ac_external_id ac) d))) =
      leads d"
    by (simp add: find_or_create_lead_def Let_def split: list.splits)
  show ?thesis
    by (cases rule: create_appeal_cases [of ac r now d])
       (simp_all add: find_or_create_lead_frame l)
qed

section \<open>Listing the affinity rows\<close>

text \<open>
  Claim C10 says that any non-zero source_id filters the result. A source_id of 2^63 is not
  zero, and the request raises OverflowError when the query binds it.
\<close>

theorem list_operator_sources_out_of_range_counterexample:
  "(9223372036854775808 :: int) \<noteq> 0 \<and>
   list_operator_sources (Some 9223372036854775808) scenario_unknown_source = Inl OverflowError"
  by (simp add: list_operator_sources_def truthy_def in_int64_def)

text \<open>
  Claim C10, amended: list_operator_sources with source_id = 0 applies no filter and
  returns every OperatorSource row, exactly as when the parameter is omitted; any non-zero
  source_id within 64 signed bits keeps the rows with that source_id only, and a source_id
  outside that range raises OverflowError.
\<close>

theorem list_operator_sources_zero_unfiltered:
  "list_operator_sources (Some 0) d = Inr (operator_sources d) \<and>
   list_operator_sources (Some 0) d = list_operator_sources None d \<and>
   (s \<noteq> 0 \<and> in_int64 s \<longrightarrow>
      list_operator_sources (Some s) d =
        Inr (filter (\<lambda>os. os_source_id os = s) (operator_sources d))) \<and>
   (\<not> in_int64 s \<longrightarrow> s \<noteq> 0 \<and> list_operator_sources (Some s) d = Inl OverflowError)"
  by (auto simp: list_operator_sources_def truthy_def in_int64_def)

text \<open>
  The witness of C10: a table with one row for source 99, listed with 0, without the
  parameter, with 1, with 99 and with 2^63.
\<close>

theorem list_operator_sources_zero_unfiltered_witness:
  "list_operator_sources (Some 0) scenario_unknown_source =
     Inr [\<lparr>os_id = 1, os_operator_id = 1, os_source_id = 99, weight = 1\<rparr>] \<and>
   list_operator_sources None scenario_unknown_source =
     Inr [\<lparr>os_id = 1, os_operator_id = 1, os_source_id = 99, weight = 1\<rparr>] \<and>
   list_operator_sources (Some 1) scenario_unknown_source = Inr [] \<and>
   list_operator_sources (Some 99) scenario_unknown_source =
     Inr [\<lparr>os_id = 1, os_operator_id = 1, os_source_id = 99, weight = 1\<rparr>] \<and>
   list_operator_sources (Some 9223372036854775808) scenario_unknown_source =
     Inl OverflowError"
proof -
  note main = list_operator_sources_zero_unfiltered
  have os: "operator_sources scenario_unknown_source =
      [\<lparr>os_id = 1, os_operator_id = 1, os_source_id = 99, weight = 1\<rparr>]"
    by code_simp
  have n1: "(1::int) \<noteq> 0 \<and> in_int64 1" and n99: "(99::int) \<noteq> 0 \<and> in_int64 99"
    and big: "\<not> in_int64 9223372036854775808"
    by (simp_all add: in_int64_def)
  from main [of scenario_unknown_source 1] n1
  have a: "list_operator_sources (Some 0) scenario_unknown_source =
             Inr (operator_sources scenario_unknown_source)"
    and b: "list_operator_sources (Some 0) scenario_unknown_source =
             list_operator_sources None scenario_unknown_source"
    and c: "list_operator_sources (Some 1) scenario_unknown_source =
             Inr (filter (\<lambda>os. os_source_id os = 1) (operator_sources scenario_unknown_source))"
    by blast+
  from main [of scenario_unknown_source 99] n99
  have e: "list_operator_sources (Some 99) scenario_unknown_source =
             Inr (filter (\<lambda>os. os_source_id os = 99) (operator_sources scenario_unknown_source))"
    by blast
  from main [of scenario_unknown_source 9223372036854775808] big
  have f: "list_operator_sources (Some 9223372036854775808) scenario_unknown_source =
             Inl OverflowError"
    by blast
  show ?thesis
    using a b c e f by (simp add: os)
qed

section \<open>Eligibility\<close>

lemma create_appeal_assigned_candidate:
  assumes "fst (create_appeal ac r now d) = Inr a" and "operator_id a = Some oid"
  shows "\<exists>opr w. (opr, w) \<in> set (candidates d (ac_source_id ac)) \<and> 0 < w \<and> op_id opr = oid"
proof (cases rule: create_appeal_cases [of ac r now d])
  case overflow
  with assms show ?thesis by simp
next
  case (raises e)
  with assms show ?thesis by simp
next
  case (returns res)
  with assms have "res = Some oid" by auto
  with returns show ?thesis by (simp add: select_operator_Some)
qed

text \<open>
  Claim C3 says that the candidate set holds exactly the operators that are active, linked
  to the source and whose current load is below max_load. An active, linked operator with
  max_load 0 and no appeal has load 0, which is not below 0, and yet the query returns it.
\<close>

theorem zero_capacity_candidate_counterexample:
  "(\<lparr>op_id = 1, op_name = ''O5'', is_active = Some True, max_load = Some 0\<rparr>, 1)
      \<in> set (candidates scenario_zero_capacity 1) \<and>
   \<not> spec_eligible scenario_zero_capacity 1
        \<lparr>op_id = 1, op_name = ''O5'', is_active = Some True, max_load = Some 0\<rparr>"
  by code_simp

text \<open>
  Claim C3, amended: for every database state and every source, an operator row with a
  weight is in the candidate set exactly when the operator is active, an affinity row with
  that weight links it to the source, and it has no Appeal row at all or its load is below
  max_load; the weight is not restricted, so weight 0 is included. For an operator with a
  positive max_load this is the selection predicate of the specification. Consequently an
  appeal is only ever assigned to the id of an active operator.
\<close>

theorem candidates_active_linked_with_capacity:
  "((opr, w) \<in> set (candidates d sid) \<longleftrightarrow>
      opr \<in> set (operators d) \<and> is_active opr = Some True \<and>
      (\<exists>os\<in>set (operator_sources d).
          os_operator_id os = op_id opr \<and> os_source_id os = sid \<and> weight os = w) \<and>
      (current_load d (op_id opr) = 0 \<or>
       (case max_load opr of None \<Rightarrow> False | Some m \<Rightarrow> current_load d (op_id opr) < m))) \<and>
   (max_load opr = Some m \<and> 0 < m \<longrightarrow>
      ((\<exists>w'. (opr, w') \<in> set (candidates d sid)) \<longleftrightarrow>
         opr \<in> set (operators d) \<and> spec_eligible d sid opr)) \<and>
   (fst (create_appeal ac r now d) = Inr a \<and> operator_id a = Some oid \<longrightarrow>
      (\<exists>opr'\<in>set (operators d). op_id opr' = oid \<and> is_active opr' = Some True))"
proof (intro conjI impI)
  show "(opr, w) \<in> set (candidates d sid) \<longleftrightarrow>
      opr \<in> set (operators d) \<and> is_active opr = Some True \<and>
      (\<exists>os\<in>set (operator_sources d).
          os_operator_id os = op_id opr \<and> os_source_id os = sid \<and> weight os = w) \<and>
      (current_load d (op_id opr) = 0 \<or>
       (case max_load opr of None \<Rightarrow> False | Some m \<Rightarrow> current_load d (op_id opr) < m))"
    by (auto simp: candidates_iff has_capacity_def)
next
  assume m: "max_load opr = Some m \<and> 0 < m"
  then have "has_capacity d opr \<longleftrightarrow> current_load d (op_id opr) < m"
    by (auto simp: has_capacity_def)
  with m show "(\<exists>w'. (opr, w') \<in> set (candidates d sid)) \<longleftrightarrow>
         opr \<in> set (operators d) \<and> spec_eligible d sid opr"
    by (auto simp: candidates_iff spec_eligible_def)
next
  assume "fst (create_appeal ac r now d) = Inr a \<and> operator_id a = Some oid"
  then obtain opr' w' where "(opr', w') \<in> set (candidates d (ac_source_id ac))"
    and "op_id opr' = oid"
    using create_appeal_assigned_candidate by blast
  then show "\<exists>opr'\<in>set (operators d). op_id opr' = oid \<and> is_active opr' = Some True"
    by (auto simp: candidates_iff)
qed


text \<open>
  The witness of C3 in Scenario A: operator 1 is a candidate with its weight 1 and not with
  another one, it satisfies the predicate of the specification, and the appeal that the
  ticket 0 gives it goes to an active operator.
\<close>

theorem candidates_active_linked_with_capacity_witness:
  "(\<lparr>op_id = 1, op_name = ''O1'', is_active = Some True, max_load = Some 2\<rparr>, 1)
      \<in> set (candidates scenario_A 1) \<and>
   (\<lparr>op_id = 2, op_name = ''O2'', is_active = Some True, max_load = Some 2\<rparr>, 1)
      \<notin> set (candidates scenario_A 1) \<and>
   spec_eligible scenario_A 1
      \<lparr>op_id = 1, op_name = ''O1'', is_active = Some True, max_load = Some 2\<rparr> \<and>
   fst (create_appeal \<lparr>ac_external_id = ''lead-1'', ac_source_id = 1, ac_message = None\<rparr>
          0 ''t'' scenario_A) =
     Inr \<lparr>ap_id = 1, lead_id = 1, source_id = 1, operator_id = Some 1, timestamp = ''t'',
          message = None\<rparr> \<and>
   (\<exists>opr'\<in>set (operators scenario_A). op_id opr' = 1 \<and> is_active opr' = Some True)"
proof -
  let ?O1 = "\<lparr>op_id = 1, op_name = ''O1'', is_active = Some True, max_load = Some (2::int)\<rparr>"
  let ?O2 = "\<lparr>op_id = 2, op_name = ''O2'', is_active = Some True, max_load = Some (2::int)\<rparr>"
  let ?ac = "\<lparr>ac_external_id = ''lead-1'', ac_source_id = 1, ac_message = None\<rparr>"
  let ?a = "\<lparr>ap_id = 1, lead_id = 1, source_id = 1, operator_id = Some 1, timestamp = ''t'',
          message = None\<rparr>"
  note main = candidates_active_linked_with_capacity
  have rhs1: "?O1 \<in> set (operators scenario_A) \<and> is_active ?O1 = Some True \<and>
      (\<exists>os\<in>set (operator_sources scenario_A).
          os_operator_id os = op_id ?O1 \<and> os_source_id os = 1 \<and> weight os = 1) \<and>
      (current_load scenario_A (op_id ?O1) = 0 \<or>
       (case max_load ?O1 of None \<Rightarrow> False
        | Some m \<Rightarrow> current_load scenario_A (op_id ?O1) < m))"
    by code_simp
  have rhs2: "\<not> (\<exists>os\<in>set (operator_sources scenario_A).
          os_operator_id os = op_id ?O2 \<and> os_source_id os = 1 \<and> weight os = 1)"
    by code_simp
  have m: "max_load ?O1 = Some 2 \<and> (0::int) < 2" by simp
  have ap: "fst (create_appeal ?ac 0 ''t'' scenario_A) = Inr ?a \<and> operator_id ?a = Some 1"
    by code_simp
  have c1: "(?O1, 1) \<in> set (candidates scenario_A 1)"
    using main [of ?O1 1 scenario_A 1] rhs1 by blast
  have c2: "(?O2, 1) \<notin> set (candidates scenario_A 1)"
    using main [of ?O2 1 scenario_A 1] rhs2 by blast
  have c3: "spec_eligible scenario_A 1 ?O1"
    using main [of ?O1 1 scenario_A 1 2] m c1 by blast
  have c4: "\<exists>opr'\<in>set (operators scenario_A). op_id opr' = 1 \<and> is_active opr' = Some True"
    using main [of ?O1 1 scenario_A 1 2 ?ac 0 "''t''" ?a 1] ap by blast
  show ?thesis
    using c1 c2 c3 c4 ap by blast
qed

text \<open>
  Claim C9: an active operator linked to the source that has no Appeal row at all is a
  candidate whatever its max_load is; in particular the active, linked operator with
  max_load 0 and no prior appeal is the candidate of its source and is assigned the appeal,
  whatever the draw.
\<close>

theorem no_appeals_admitted_whatever_max_load:
  "(opr \<in> set (operators d) \<and> is_active opr = Some True \<and>
    os \<in> set (operator_sources d) \<and> os_operator_id os = op_id opr \<and> os_source_id os = sid \<and>
    (\<forall>a\<in>set (appeals d). operator_id a \<noteq> Some (op_id opr))
      \<longrightarrow> (opr, weight os) \<in> set (candidates d sid)) \<and>
   candidates scenario_zero_capacity 1 =
     [(\<lparr>op_id = 1, op_name = ''O5'', is_active = Some True, max_load = Some 0\<rparr>, 1)] \<and>
   fst (create_appeal \<lparr>ac_external_id = ''lead-1'', ac_source_id = 1, ac_message = None\<rparr>
          r now scenario_zero_capacity) =
     Inr \<lparr>ap_id = 1, lead_id = 1, source_id = 1, operator_id = Some 1, timestamp = now,
          message = None\<rparr>"
proof (intro conjI impI)
  assume h: "opr \<in> set (operators d) \<and> is_active opr = Some True \<and>
    os \<in> set (operator_sources d) \<and> os_operator_id os = op_id opr \<and> os_source_id os = sid \<and>
    (\<forall>a\<in>set (appeals d). operator_id a \<noteq> Some (op_id opr))"
  then have "Some (op_id opr) \<notin> set (map operator_id (appeals d))" by auto
  then have "current_load d (op_id opr) = 0" by (simp add: current_load_zero_iff)
  then have "has_capacity d opr" by (simp add: has_capacity_def)
  with h show "(opr, weight os) \<in> set (candidates d sid)"
    by (auto simp: candidates_iff)
next
  show c: "candidates scenario_zero_capacity 1 =
     [(\<lparr>op_id = 1, op_name = ''O5'', is_active = Some True, max_load = Some 0\<rparr>, 1)]"
    by code_simp
  have s: "select_operator (candidates scenario_zero_capacity 1) r = Inr (Some 1)"
    by (simp add: c select_operator_def random_choices_def accumulate_def bisect_def)
  have l: "find_or_create_lead ''lead-1'' scenario_zero_capacity =
      (\<lparr>ld_id = 1, external_id = ''lead-1''\<rparr>,
       scenario_zero_capacity\<lparr>leads := [\<lparr>ld_id = 1, external_id = ''lead-1''\<rparr>]\<rparr>)"
    and a: "appeals scenario_zero_capacity = []"
    by code_simp+
  show "fst (create_appeal \<lparr>ac_external_id = ''lead-1'', ac_source_id = 1, ac_message = None\<rparr>
          r now scenario_zero_capacity) =
     Inr \<lparr>ap_id = 1, lead_id = 1, source_id = 1, operator_id = Some 1, timestamp = now,
          message = None\<rparr>"
    using s by (simp add: create_appeal_returns l a next_id_def)
qed

text \<open>
  The witness of C9: the operator with max_load 0 in a database without appeals.
\<close>

theorem no_appeals_admitted_whatever_max_load_witness:
  "(\<lparr>op_id = 1, op_name = ''O5'', is_active = Some True, max_load = Some 0\<rparr>, 1)
      \<in> set (candidates scenario_zero_capacity 1) \<and>
   appeals scenario_zero_capacity = [] \<and>
   fst (create_appeal \<lparr>ac_external_id = ''lead-1'', ac_source_id = 1, ac_message = None\<rparr>
          0 ''t'' scenario_zero_capacity) =
     Inr \<lparr>ap_id = 1, lead_id = 1, source_id = 1, operator_id = Some 1, timestamp = ''t'',
          message = None\<rparr>"
proof -
  let ?O5 = "\<lparr>op_id = 1, op_name = ''O5'', is_active = Some True, max_load = Some (0::int)\<rparr>"
  let ?os = "\<lparr>os_id = 1, os_operator_id = 1, os_source_id = 1, weight = 1\<rparr>"
  have h: "?O5 \<in> set (operators scenario_zero_capacity) \<and> is_active ?O5 = Some True \<and>
    ?os \<in> set (operator_sources scenario_zero_capacity) \<and> os_operator_id ?os = op_id ?O5 \<and>
    os_source_id ?os = 1 \<and>
    (\<forall>a\<in>set (appeals scenario_zero_capacity). operator_id a \<noteq> Some (op_id ?O5))"
    by code_simp
  have e: "appeals scenario_zero_capacity = []" by code_simp
  note main = no_appeals_admitted_whatever_max_load [of ?O5 scenario_zero_capacity ?os 1 0 "''t''"]
  from main h have "(?O5, weight ?os) \<in> set (candidates scenario_zero_capacity 1)" by blast
  moreover from main have
    "fst (create_appeal \<lparr>ac_external_id = ''lead-1'', ac_source_id = 1, ac_message = None\<rparr>
          0 ''t'' scenario_zero_capacity) =
     Inr \<lparr>ap_id = 1, lead_id = 1, source_id = 1, operator_id = Some 1, timestamp = ''t'',
          message = None\<rparr>" by blast
  ultimately show ?thesis using e by simp
qed

section \<open>Capacity\<close>

lemma current_load_append:
  "current_load (d\<lparr>appeals := appeals d @ [a]\<rparr>) oid =
     current_load d oid + (if operator_id a = Some oid then 1 else 0)"
  by (simp add: current_load_def)

lemma current_load_create_appeal:
  "current_load d oid \<le> current_load (snd (create_appeal ac r now d)) oid"
  by (cases rule: create_appeal_cases [of ac r now d])
     (simp_all add: current_load_def find_or_create_lead_frame)

text \<open>
  No endpoint removes an appeal: a request for an appeal never lowers a load, and the other
  writing endpoints leave the appeals as they are.
\<close>

lemma appeals_never_removed:
  "current_load d oid \<le> current_load (snd (create_appeal ac r now d)) oid"
  "appeals (snd (create_operator oc d)) = appeals d"
  "appeals (snd (update_operator i upd d)) = appeals d"
  "appeals (snd (create_source sc d)) = appeals d"
  "appeals (snd (create_operator_source osc d)) = appeals d"
  by (simp_all add: current_load_create_appeal create_operator_def update_operator_def
        create_source_def create_operator_source_def Let_def split: list.splits)

lemma current_load_remove1:
  assumes "a \<in> set (appeals d)" and "operator_id a = Some oid"
  shows "current_load (d\<lparr>appeals := remove1 a (appeals d)\<rparr>) oid = current_load d oid - 1"
proof -
  let ?P = "\<lambda>x. operator_id x = Some oid"
  have "filter ?P (remove1 a (appeals d)) = remove1 a (filter ?P (appeals d))"
    by (rule filter_remove1)
  moreover have "a \<in> set (filter ?P (appeals d))" using assms by simp
  ultimately have "length (filter ?P (remove1 a (appeals d))) =
      length (filter ?P (appeals d)) - 1"
    by (simp add: length_remove1)
  moreover have "0 < length (filter ?P (appeals d))"
    using \<open>a \<in> set (filter ?P (appeals d))\<close> by (simp only: length_pos_if_in_set)
  ultimately have "int (length (filter ?P (remove1 a (appeals d)))) =
      int (length (filter ?P (appeals d))) - 1"
    by linarith
  then show ?thesis by (simp add: current_load_def)
qed

text \<open>
  Claim C4 says that every operator whose load equals max_load exactly is excluded from the
  candidate set. The operator with max_load 0 and no appeal has load 0 = max_load, and it
  is the candidate of its source.
\<close>

theorem load_zero_max_load_zero_counterexample:
  "\<lparr>op_id = 1, op_name = ''O5'', is_active = Some True, max_load = Some 0\<rparr>
      \<in> set (operators scenario_zero_capacity) \<and>
   current_load scenario_zero_capacity 1 = 0 \<and>
   candidates scenario_zero_capacity 1 =
     [(\<lparr>op_id = 1, op_name = ''O5'', is_active = Some True, max_load = Some 0\<rparr>, 1)]"
  by code_simp

text \<open>
  Claim C4, amended: an operator whose load equals max_load exactly, with max_load at
  least 1, is in no candidate set; and once one of its appeals is released, so that its
  Appeal row no longer counts, the load is below max_load and the operator, still active
  and linked, is a candidate again.
\<close>

theorem full_operator_excluded_until_released:
  "(max_load opr = Some m \<and> current_load d (op_id opr) = m \<and> 0 < m \<longrightarrow>
      (opr, w) \<notin> set (candidates d sid)) \<and>
   (opr \<in> set (operators d) \<and> is_active opr = Some True \<and>
    os \<in> set (operator_sources d) \<and> os_operator_id os = op_id opr \<and> os_source_id os = sid \<and>
    max_load opr = Some m \<and> current_load d (op_id opr) = m \<and>
    a \<in> set (appeals d) \<and> operator_id a = Some (op_id opr) \<longrightarrow>
      current_load (d\<lparr>appeals := remove1 a (appeals d)\<rparr>) (op_id opr) = m - 1 \<and>
      (opr, weight os) \<in> set (candidates (d\<lparr>appeals := remove1 a (appeals d)\<rparr>) sid))"
proof (intro conjI impI)
  assume "max_load opr = Some m \<and> current_load d (op_id opr) = m \<and> 0 < m"
  then have "\<not> has_capacity d opr" by (simp add: has_capacity_def)
  then show "(opr, w) \<notin> set (candidates d sid)" by (simp add: candidates_iff)
next
  let ?d = "d\<lparr>appeals := remove1 a (appeals d)\<rparr>"
  assume h: "opr \<in> set (operators d) \<and> is_active opr = Some True \<and>
    os \<in> set (operator_sources d) \<and> os_operator_id os = op_id opr \<and> os_source_id os = sid \<and>
    max_load opr = Some m \<and> current_load d (op_id opr) = m \<and>
    a \<in> set (appeals d) \<and> operator_id a = Some (op_id opr)"
  then show l: "current_load ?d (op_id opr) = m - 1"
    by (simp add: current_load_remove1)
  with h have "has_capacity ?d opr" by (simp add: has_capacity_def)
  with h show "(opr, weight os) \<in> set (candidates ?d sid)"
    by (auto simp: candidates_iff)
qed

text \<open>
  The witness of C4 in Scenario D: the operator with max_load 1 and one appeal is excluded,
  and without that appeal row its load is 0 and it is a candidate.
\<close>

theorem full_operator_excluded_until_released_witness:
  "current_load scenario_D 1 = 1 \<and>
   (\<lparr>op_id = 1, op_name = ''O5'', is_active = Some True, max_load = Some 1\<rparr>, 1)
      \<notin> set (candidates scenario_D 1) \<and>
   current_load (scenario_D\<lparr>appeals := remove1
            \<lparr>ap_id = 1, lead_id = 1, source_id = 1, operator_id = Some 1,
              timestamp = ''2024-01-01T00:00:00'', message = None\<rparr> (appeals scenario_D)\<rparr>) 1
     = 0 \<and>
   (\<lparr>op_id = 1, op_name = ''O5'', is_active = Some True, max_load = Some 1\<rparr>, 1)
      \<in> set (candidates (scenario_D\<lparr>appeals := remove1
            \<lparr>ap_id = 1, lead_id = 1, source_id = 1, operator_id = Some 1,
              timestamp = ''2024-01-01T00:00:00'', message = None\<rparr> (appeals scenario_D)\<rparr>) 1)"
proof -
  let ?O5 = "\<lparr>op_id = 1, op_name = ''O5'', is_active = Some True, max_load = Some (1::int)\<rparr>"
  let ?os = "\<lparr>os_id = 1, os_operator_id = 1, os_source_id = 1, weight = 1\<rparr>"
  let ?a = "\<lparr>ap_id = 1, lead_id = 1, source_id = 1, operator_id = Some 1,
              timestamp = ''2024-01-01T00:00:00'', message = None\<rparr>"
  note main = full_operator_excluded_until_released
                [where opr = ?O5 and m = 1 and d = scenario_D and w = 1 and sid = 1
                   and os = ?os and a = ?a]
  have l: "current_load scenario_D 1 = 1" by code_simp
  have h1: "max_load ?O5 = Some 1 \<and> current_load scenario_D (op_id ?O5) = 1 \<and> (0::int) < 1"
    using l by simp
  have h3: "?O5 \<in> set (operators scenario_D) \<and> is_active ?O5 = Some True \<and>
    ?os \<in> set (operator_sources scenario_D) \<and> os_operator_id ?os = op_id ?O5 \<and>
    os_source_id ?os = 1 \<and> max_load ?O5 = Some 1 \<and>
    current_load scenario_D (op_id ?O5) = 1 \<and>
    ?a \<in> set (appeals scenario_D) \<and> operator_id ?a = Some (op_id ?O5)"
    by code_simp
  from main h1 have c1: "(?O5, 1) \<notin> set (candidates scenario_D 1)" by blast
  from main h3 have c2: "current_load (scenario_D\<lparr>appeals := remove1 ?a (appeals scenario_D)\<rparr>)
      (op_id ?O5) = 1 - 1" by blast
  from main h3 have c3: "(?O5, weight ?os) \<in>
     set (candidates (scenario_D\<lparr>appeals := remove1 ?a (appeals scenario_D)\<rparr>) 1)" by blast
  show ?thesis using l c1 c2 c3 by simp
qed

section \<open>Sources without affinity rows\<close>





section \<open>Two requests for one lead\<close>

lemma next_id_greater: "x \<in> set ids \<Longrightarrow> x < next_id ids"
proof -
  assume x: "x \<in> set ids"
  then have "x \<le> Max (set ids)" by simp
  moreover from x have "ids \<noteq> []" by auto
  ultimately show ?thesis by (simp add: next_id_def)
qed

lemma next_id_append: "next_id (ids @ [next_id ids]) = next_id ids + 1"
proof -
  have "Max (set (ids @ [next_id ids])) = next_id ids"
  proof (rule Max_eqI)
    show "finite (set (ids @ [next_id ids]))" by simp
    show "next_id ids \<in> set (ids @ [next_id ids])" by simp
    fix y assume "y \<in> set (ids @ [next_id ids])"
    then show "y \<le> next_id ids" using next_id_greater [of y ids] by auto
  qed
  then show ?thesis by (simp add: next_id_def)
qed

lemma find_or_create_lead_found:
  "filter (\<lambda>l. external_id l = ext) (leads d) = l # ls \<Longrightarrow> find_or_create_lead ext d = (l, d)"
  by (simp add: find_or_create_lead_def)

lemma find_or_create_lead_first:
  "\<exists>ls. filter (\<lambda>l. external_id l = ext) (leads (snd (find_or_create_lead ext d))) =
          fst (find_or_create_lead ext d) # ls"
  by (cases "filter (\<lambda>l. external_id l = ext) (leads d)")
     (simp_all add: find_or_create_lead_def Let_def)

lemma leads_create_appeal:
  "leads (snd (create_appeal ac r now d)) = leads (snd (find_or_create_lead (ac_external_id ac) d))"
  by (cases rule: create_appeal_cases [of ac r now d]) simp_all

lemma find_or_create_lead_after:
  assumes "leads d' = leads (snd (find_or_create_lead ext d))"
  shows "find_or_create_lead ext d' = (fst (find_or_create_lead ext d), d')"
proof -
  from find_or_create_lead_first [of ext d] obtain ls where
    "filter (\<lambda>l. external_id l = ext) (leads d') = fst (find_or_create_lead ext d) # ls"
    using assms by auto
  then show ?thesis by (rule find_or_create_lead_found)
qed

lemma second_call_reuses_lead:
  assumes "ac_external_id ac2 = ac_external_id ac1"
  shows "leads (snd (create_appeal ac2 r2 now2 (snd (create_appeal ac1 r1 now1 d)))) =
         leads (snd (create_appeal ac1 r1 now1 d))"
    and "fst (find_or_create_lead (ac_external_id ac2) (snd (create_appeal ac1 r1 now1 d))) =
         fst (find_or_create_lead (ac_external_id ac1) d)"
proof -
  let ?d1 = "snd (create_appeal ac1 r1 now1 d)"
  have "leads ?d1 = leads (snd (find_or_create_lead (ac_external_id ac1) d))"
    by (rule leads_create_appeal)
  then have f: "find_or_create_lead (ac_external_id ac1) ?d1 =
      (fst (find_or_create_lead (ac_external_id ac1) d), ?d1)"
    by (rule find_or_create_lead_after)
  show "leads (snd (create_appeal ac2 r2 now2 ?d1)) = leads ?d1"
    using f assms by (simp add: leads_create_appeal)
  show "fst (find_or_create_lead (ac_external_id ac2) ?d1) =
         fst (find_or_create_lead (ac_external_id ac1) d)"
    using f assms by simp
qed

lemma leads_find_or_create_lead:
  "length (filter (\<lambda>l. external_id l = ext) (leads (snd (find_or_create_lead ext d)))) =
     max 1 (length (filter (\<lambda>l. external_id l = ext) (leads d)))"
  by (cases "filter (\<lambda>l. external_id l = ext) (leads d)")
     (simp_all add: find_or_create_lead_def Let_def)

text \<open>
  Two requests with the same external id, when both return: the appeals table gains the two
  appeals, with consecutive ids and the same lead, each routed by the selection step on the
  state it found, and the external id has one lead (or as many as it had before).
\<close>

lemma two_calls_when_both_return:
  assumes same: "ac_external_id ac2 = ac_external_id ac1"
    and r1: "fst (create_appeal ac1 r1 now1 d) = Inr a1"
    and r2: "fst (create_appeal ac2 r2 now2 (snd (create_appeal ac1 r1 now1 d))) = Inr a2"
  shows "appeals (snd (create_appeal ac2 r2 now2 (snd (create_appeal ac1 r1 now1 d)))) =
           appeals d @ [a1, a2]"
    and "lead_id a2 = lead_id a1"
    and "ap_id a2 = ap_id a1 + 1"
    and "length (filter (\<lambda>l. external_id l = ac_external_id ac1)
            (leads (snd (create_appeal ac2 r2 now2 (snd (create_appeal ac1 r1 now1 d)))))) =
         max 1 (length (filter (\<lambda>l. external_id l = ac_external_id ac1) (leads d)))"
    and "select_operator (candidates d (ac_source_id ac1)) r1 = Inr (operator_id a1)"
    and "select_operator (candidates (snd (create_appeal ac1 r1 now1 d)) (ac_source_id ac2)) r2 =
           Inr (operator_id a2)"
proof -
  let ?d1 = "snd (create_appeal ac1 r1 now1 d)"
  let ?d2 = "snd (create_appeal ac2 r2 now2 ?d1)"
  from r1 obtain o1 where i1: "in_int64 (ac_source_id ac1)"
    and s1: "select_operator (candidates d (ac_source_id ac1)) r1 = Inr o1"
    by (cases rule: create_appeal_cases [of ac1 r1 now1 d]) simp_all
  from r2 obtain o2 where i2: "in_int64 (ac_source_id ac2)"
    and s2: "select_operator (candidates ?d1 (ac_source_id ac2)) r2 = Inr o2"
    by (cases rule: create_appeal_cases [of ac2 r2 now2 ?d1]) simp_all
  note c1 = create_appeal_returns [OF i1 s1, of now1]
  note c2 = create_appeal_returns [OF i2 s2, of now2]
  from c1 r1 have a1: "a1 = \<lparr>ap_id = next_id (map ap_id (appeals d)),
       lead_id = ld_id (fst (find_or_create_lead (ac_external_id ac1) d)),
       source_id = ac_source_id ac1, operator_id = o1, timestamp = now1,
       message = ac_message ac1\<rparr>" by simp
  from c1 a1 have ap1: "appeals ?d1 = appeals d @ [a1]" by simp
  from c2 r2 have a2: "a2 = \<lparr>ap_id = next_id (map ap_id (appeals ?d1)),
       lead_id = ld_id (fst (find_or_create_lead (ac_external_id ac2) ?d1)),
       source_id = ac_source_id ac2, operator_id = o2, timestamp = now2,
       message = ac_message ac2\<rparr>" by simp
  from c2 a2 have ap2: "appeals ?d2 = appeals ?d1 @ [a2]" by simp
  show "appeals ?d2 = appeals d @ [a1, a2]" using ap1 ap2 by simp
  show "lead_id a2 = lead_id a1"
    using a1 a2 second_call_reuses_lead(2) [OF same, of r1 now1 d] by simp
  have "ap_id a1 = next_id (map ap_id (appeals d))" using a1 by simp
  moreover have "ap_id a2 = next_id (map ap_id (appeals d) @ [ap_id a1])"
    using a2 ap1 by simp
  ultimately show "ap_id a2 = ap_id a1 + 1" by (simp add: next_id_append)
  show "length (filter (\<lambda>l. external_id l = ac_external_id ac1) (leads ?d2)) =
         max 1 (length (filter (\<lambda>l. external_id l = ac_external_id ac1) (leads d)))"
    using second_call_reuses_lead(1) [OF same, of r2 now2 r1 now1 d]
    by (simp add: leads_create_appeal leads_find_or_create_lead)
  show "select_operator (candidates d (ac_source_id ac1)) r1 = Inr (operator_id a1)"
    using s1 a1 by simp
  show "select_operator (candidates ?d1 (ac_source_id ac2)) r2 = Inr (operator_id a2)"
    using s2 a2 by simp
qed

text \<open>
  Claim C7: two calls of create_appeal with the same external_id and source_id create at
  most one Lead but two Appeal records. The code breaks the second half in Scenario B: both
  calls raise ValueError at the selection step, after the first has committed the lead, so
  the database ends with one lead and no appeal.
\<close>

theorem two_calls_zero_weight_no_appeal:
  "fst (create_appeal \<lparr>ac_external_id = ''lead-1'', ac_source_id = 1, ac_message = None\<rparr>
          0 ''t1'' scenario_B) = Inl ValueError \<and>
   fst (create_appeal \<lparr>ac_external_id = ''lead-1'', ac_source_id = 1, ac_message = None\<rparr>
          0 ''t2''
          (snd (create_appeal \<lparr>ac_external_id = ''lead-1'', ac_source_id = 1, ac_message = None\<rparr>
                  0 ''t1'' scenario_B))) = Inl ValueError \<and>
   leads (snd (create_appeal \<lparr>ac_external_id = ''lead-1'', ac_source_id = 1, ac_message = None\<rparr>
          0 ''t2''
          (snd (create_appeal \<lparr>ac_external_id = ''lead-1'', ac_source_id = 1, ac_message = None\<rparr>
                  0 ''t1'' scenario_B)))) = [\<lparr>ld_id = 1, external_id = ''lead-1''\<rparr>] \<and>
   appeals (snd (create_appeal \<lparr>ac_external_id = ''lead-1'', ac_source_id = 1, ac_message = None\<rparr>
          0 ''t2''
          (snd (create_appeal \<lparr>ac_external_id = ''lead-1'', ac_source_id = 1, ac_message = None\<rparr>
                  0 ''t1'' scenario_B)))) = []"
  by code_simp

section \<open>The capacity invariant\<close>







text \<open>
  The ids that create_operator gives are new, so the operators of a database built by the
  endpoints have distinct ids.
\<close>

lemma distinct_create_operator:
  "distinct (map op_id (operators d)) \<Longrightarrow>
     distinct (map op_id (operators (snd (create_operator oc d))))"
  using next_id_greater [of "next_id (map op_id (operators d))" "map op_id (operators d)"]
  by (auto simp: create_operator_def Let_def)




end
